theory Spec2Isabelle
  imports Main "HOL-Library.Sublist"
begin

section \<open>Python values, exceptions and the external process\<close>

text \<open>
  The exceptions the core modules can meet, all of them subclasses of Python's
  \<^verbatim>\<open>Exception\<close> (the handlers of the source are \<^verbatim>\<open>except Exception\<close>, which
  does not catch \<^verbatim>\<open>KeyboardInterrupt\<close> or \<^verbatim>\<open>SystemExit\<close>; those are outside the
  model). \<open>JSONDecodeError\<close> is a subclass of \<open>ValueError\<close>; \<open>OtherError\<close> stands
  for any exception class that is neither a \<open>ValueError\<close> nor one of the named ones.
\<close>

datatype exn =
    TypeError
  | AttributeError
  | ValueError
  | JSONDecodeError
  | FileNotFoundError
  | TimeoutExpired
  | OtherError string

fun is_ValueError :: "exn \<Rightarrow> bool" where
  "is_ValueError ValueError = True"
| "is_ValueError JSONDecodeError = True"
| "is_ValueError _ = False"

text \<open>
  The values \<^verbatim>\<open>json.loads\<close> produces: \<^verbatim>\<open>None\<close>, booleans, integers, strings,
  lists and dictionaries with string keys (in insertion order). JSON numbers with a
  fraction or an exponent decode to floats, whose arithmetic is not modelled: they are
  not values of this type. Strings are byte strings.
\<close>

datatype pyval =
    PNone
  | PBool bool
  | PInt int
  | PStr string
  | PList "pyval list"
  | PDict "(string \<times> pyval) list"

text \<open>Truth value testing (\<^verbatim>\<open>if x\<close>, \<^verbatim>\<open>not x\<close>, \<^verbatim>\<open>x or y\<close>).\<close>

fun truthy :: "pyval \<Rightarrow> bool" where
  "truthy PNone = False"
| "truthy (PBool b) = b"
| "truthy (PInt i) = (i \<noteq> 0)"
| "truthy (PStr s) = (s \<noteq> [])"
| "truthy (PList xs) = (xs \<noteq> [])"
| "truthy (PDict kvs) = (kvs \<noteq> [])"

text \<open>
  \<^verbatim>\<open>subprocess.run(argv, capture_output=True, text=True, timeout=t)\<close>: the operating
  system is a parameter. A call returns a completed process (return code, captured
  standard output, captured standard error) or raises: \<open>TimeoutExpired\<close> when the time
  limit passes, \<open>FileNotFoundError\<close> when the executable is missing, and so on.
\<close>

datatype completed_process = CompletedProcess int string string

type_synonym subprocess = "string list \<Rightarrow> int \<Rightarrow> exn + completed_process"

section \<open>core/pac\_cli.py: PACCLIWrapper\<close>

text \<open>The dictionary \<^verbatim>\<open>run_command\<close> returns, with its five fixed keys.\<close>

record command_result =
  success :: bool
  stdout :: string
  stderr :: string
  returncode :: int
  command :: string

text \<open>\<^verbatim>\<open>' '.join(xs)\<close> on a list of strings.\<close>

fun join_space :: "string list \<Rightarrow> string" where
  "join_space [] = []"
| "join_space [x] = x"
| "join_space (x # y # ys) = x @ '' '' @ join_space (y # ys)"

text \<open>
  \<^verbatim>\<open>run_command(self, command, timeout=30)\<close>. Logging is not modelled. Only
  \<open>TimeoutExpired\<close> is caught; any other exception of \<^verbatim>\<open>subprocess.run\<close> leaves the
  method.
\<close>

definition default_timeout :: int where
  "default_timeout = 30"

definition run_command :: "subprocess \<Rightarrow> string list \<Rightarrow> int \<Rightarrow> exn + command_result" where
  "run_command sp cmd timeout =
     (let full_command = ''pac'' # cmd in
      case sp full_command timeout of
        Inr (CompletedProcess rc out err) \<Rightarrow>
          Inr \<lparr>success = (rc = 0), stdout = out, stderr = err, returncode = rc,
               command = join_space full_command\<rparr>
      | Inl e \<Rightarrow>
          if e = TimeoutExpired then
            Inr \<lparr>success = False, stdout = [], stderr = ''Command timed out'',
                 returncode = - 1, command = join_space full_command\<rparr>
          else Inl e)"

text \<open>
  \<^verbatim>\<open>json.loads\<close> is a parameter: on a string it returns the decoded value or raises,
  \<open>JSONDecodeError\<close> when the text is not valid JSON.
\<close>

type_synonym json_loads = "string \<Rightarrow> exn + pyval"

text \<open>
  \<^verbatim>\<open>get_environments\<close> and \<^verbatim>\<open>get_solutions\<close>: the decoded value is returned as it
  is; only \<open>JSONDecodeError\<close> is caught.
\<close>

definition get_environments :: "json_loads \<Rightarrow> subprocess \<Rightarrow> exn + pyval" where
  "get_environments loads sp =
     (case run_command sp [''org'', ''list'', ''--json''] default_timeout of
        Inl e \<Rightarrow> Inl e
      | Inr result \<Rightarrow>
          if success result then
            (case loads (stdout result) of
               Inr environments \<Rightarrow> Inr environments
             | Inl e \<Rightarrow> if e = JSONDecodeError then Inr (PList []) else Inl e)
          else Inr (PList []))"

definition select_environment :: "subprocess \<Rightarrow> string \<Rightarrow> exn + bool" where
  "select_environment sp environment_url =
     (case run_command sp [''org'', ''select'', ''--environment'', environment_url]
             default_timeout of
        Inl e \<Rightarrow> Inl e
      | Inr result \<Rightarrow> if success result then Inr True else Inr False)"

definition get_solutions :: "json_loads \<Rightarrow> subprocess \<Rightarrow> exn + pyval" where
  "get_solutions loads sp =
     (case run_command sp [''solution'', ''list'', ''--json''] default_timeout of
        Inl e \<Rightarrow> Inl e
      | Inr result \<Rightarrow>
          if success result then
            (case loads (stdout result) of
               Inr solutions \<Rightarrow> Inr solutions
             | Inl e \<Rightarrow> if e = JSONDecodeError then Inr (PList []) else Inl e)
          else Inr (PList []))"

text \<open>
  The argument lists \<^verbatim>\<open>export_solution\<close> and \<^verbatim>\<open>import_solution\<close> build in their
  local variable \<^verbatim>\<open>command\<close> (\<^verbatim>\<open>command.append\<close> adds the flag at the end).
\<close>

definition export_solution_command :: "string \<Rightarrow> string \<Rightarrow> bool \<Rightarrow> string list" where
  "export_solution_command solution_name output_path managed =
     (let cmd = [''solution'', ''export'', ''--name'', solution_name, ''--path'', output_path]
      in if managed then cmd @ [''--managed''] else cmd)"

definition export_solution :: "subprocess \<Rightarrow> string \<Rightarrow> string \<Rightarrow> bool \<Rightarrow> exn + bool" where
  "export_solution sp solution_name output_path managed =
     (case run_command sp (export_solution_command solution_name output_path managed) 300 of
        Inl e \<Rightarrow> Inl e
      | Inr result \<Rightarrow> if success result then Inr True else Inr False)"

definition import_solution_command :: "string \<Rightarrow> bool \<Rightarrow> string list" where
  "import_solution_command solution_path publish_workflows =
     (let cmd = [''solution'', ''import'', ''--path'', solution_path]
      in if publish_workflows then cmd @ [''--publish-changes''] else cmd)"

definition import_solution :: "subprocess \<Rightarrow> string \<Rightarrow> bool \<Rightarrow> exn + bool" where
  "import_solution sp solution_path publish_workflows =
     (case run_command sp (import_solution_command solution_path publish_workflows) 600 of
        Inl e \<Rightarrow> Inl e
      | Inr result \<Rightarrow> if success result then Inr True else Inr False)"

definition get_current_environment :: "json_loads \<Rightarrow> subprocess \<Rightarrow> exn + pyval option" where
  "get_current_environment loads sp =
     (case run_command sp [''org'', ''who'', ''--json''] default_timeout of
        Inl e \<Rightarrow> Inl e
      | Inr result \<Rightarrow>
          if success result then
            (case loads (stdout result) of
               Inr environment_info \<Rightarrow> Inr (Some environment_info)
             | Inl e \<Rightarrow> if e = JSONDecodeError then Inr None else Inl e)
          else Inr None)"

definition authenticate :: "subprocess \<Rightarrow> exn + bool" where
  "authenticate sp =
     (case run_command sp [''auth'', ''create''] default_timeout of
        Inl e \<Rightarrow> Inl e
      | Inr result \<Rightarrow> if success result then Inr True else Inr False)"

section \<open>core/environment.py: PowerPlatformEnvironment and EnvironmentManager\<close>

text \<open>
  \<^verbatim>\<open>datetime\<close> values are naive (no time zone): the wall-clock fields.
\<close>

record datetime =
  year :: int
  month :: int
  day :: int
  hour :: int
  minute :: int
  second :: int
  microsecond :: int

text \<open>
  The dataclass declares six \<^verbatim>\<open>str\<close> fields and an optional \<^verbatim>\<open>datetime\<close>. Python does
  not check the annotations, and \<^verbatim>\<open>refresh_environments\<close> stores whatever the decoded
  record holds, so the six fields are Python values here.
\<close>

record PowerPlatformEnvironment =
  name :: pyval
  display_name :: pyval
  url :: pyval
  region :: pyval
  environment_type :: pyval
  state :: pyval
  created_time :: "datetime option"

text \<open>
  The manager's two attributes. \<open>environments_id\<close> is the identity of the list object
  bound to \<^verbatim>\<open>self._environments\<close>: \<^verbatim>\<open>self._environments = []\<close> binds a new list
  (the next unused identity, \<open>next_id\<close>), \<^verbatim>\<open>append\<close> changes the list in place.
\<close>

record EnvironmentManager =
  environments :: "PowerPlatformEnvironment list"
  environments_id :: nat
  next_id :: nat
  current_environment :: "PowerPlatformEnvironment option"


text \<open>
  \<^verbatim>\<open>env.get(key, default)\<close>: only a dictionary has the method; on any other value
  the attribute lookup raises \<open>AttributeError\<close>.
\<close>

fun py_get :: "pyval \<Rightarrow> string \<Rightarrow> pyval \<Rightarrow> exn + pyval" where
  "py_get (PDict kvs) k d = Inr (case map_of kvs k of Some v \<Rightarrow> v | None \<Rightarrow> d)"
| "py_get _ k d = Inl AttributeError"

text \<open>
  \<^verbatim>\<open>for env in env_data\<close>: a list yields its elements, a dictionary its keys, a string
  its characters; \<^verbatim>\<open>None\<close>, booleans and integers are not iterable (\<open>TypeError\<close>).
\<close>

fun py_iter :: "pyval \<Rightarrow> exn + pyval list" where
  "py_iter (PList xs) = Inr xs"
| "py_iter (PDict kvs) = Inr (map (\<lambda>kv. PStr (fst kv)) kvs)"
| "py_iter (PStr s) = Inr (map (\<lambda>c. PStr [c]) s)"
| "py_iter _ = Inl TypeError"

text \<open>
  \<^verbatim>\<open>datetime.strptime(date_string, fmt)\<close> is a parameter of \<^verbatim>\<open>_parse_datetime\<close>: it
  returns a \<^verbatim>\<open>datetime\<close> or raises.
\<close>

type_synonym strptime_fun = "pyval \<Rightarrow> string \<Rightarrow> exn + datetime"

definition formats :: "string list" where
  "formats = [''%Y-%m-%dT%H:%M:%S.%fZ'', ''%Y-%m-%dT%H:%M:%SZ'', ''%Y-%m-%d %H:%M:%S'']"

text \<open>
  The loop over the formats: the first format that parses returns; \<open>ValueError\<close> (and
  its subclasses) moves on to the next format; any other exception leaves the loop. When
  no format is left the loop ends and the method returns \<^verbatim>\<open>None\<close>.
\<close>

fun try_formats :: "strptime_fun \<Rightarrow> pyval \<Rightarrow> string list \<Rightarrow> exn + datetime option" where
  "try_formats sp date_string [] = Inr None"
| "try_formats sp date_string (fmt # fmts) =
     (case sp date_string fmt of
        Inr d \<Rightarrow> Inr (Some d)
      | Inl e \<Rightarrow> if is_ValueError e then try_formats sp date_string fmts else Inl e)"

text \<open>
  \<^verbatim>\<open>_parse_datetime\<close>: a falsy argument gives \<^verbatim>\<open>None\<close> at once; the outer handler turns
  every exception that leaves the loop into \<^verbatim>\<open>None\<close>.
\<close>

definition parse_datetime :: "strptime_fun \<Rightarrow> pyval \<Rightarrow> datetime option" where
  "parse_datetime sp date_string =
     (if \<not> truthy date_string then None
      else case try_formats sp date_string formats of
             Inr r \<Rightarrow> r
           | Inl e \<Rightarrow> None)"

text \<open>Sequencing of calls that may raise.\<close>

definition bind_exn :: "exn + 'a \<Rightarrow> ('a \<Rightarrow> exn + 'b) \<Rightarrow> exn + 'b" where
  "bind_exn m f = (case m of Inl e \<Rightarrow> Inl e | Inr x \<Rightarrow> f x)"

text \<open>
  The body of the loop of \<^verbatim>\<open>refresh_environments\<close>: the constructor call, its arguments
  evaluated from left to right.
\<close>

definition make_environment :: "strptime_fun \<Rightarrow> pyval \<Rightarrow> exn + PowerPlatformEnvironment" where
  "make_environment sp env =
     bind_exn (py_get env ''EnvironmentName'' (PStr [])) (\<lambda>v_name.
     bind_exn (py_get env ''FriendlyName'' (PStr [])) (\<lambda>v_display_name.
     bind_exn (py_get env ''EnvironmentUrl'' (PStr [])) (\<lambda>v_url.
     bind_exn (py_get env ''Region'' (PStr [])) (\<lambda>v_region.
     bind_exn (py_get env ''EnvironmentType'' (PStr [])) (\<lambda>v_type.
     bind_exn (py_get env ''State'' (PStr [])) (\<lambda>v_state.
     bind_exn (py_get env ''CreatedTime'' PNone) (\<lambda>v_created.
       Inr \<lparr>name = v_name, display_name = v_display_name, url = v_url, region = v_region,
            environment_type = v_type, state = v_state,
            created_time = parse_datetime sp v_created\<rparr>)))))))"

text \<open>
  The loop: each environment is appended to \<^verbatim>\<open>self._environments\<close> as soon as it is
  built, so an exception leaves the environments appended so far in the manager. The
  result is the exception that ended the loop, if any, and the manager.
\<close>

fun refresh_loop ::
  "strptime_fun \<Rightarrow> pyval list \<Rightarrow> EnvironmentManager \<Rightarrow> exn option \<times> EnvironmentManager" where
  "refresh_loop sp [] s = (None, s)"
| "refresh_loop sp (env # envs) s =
     (case make_environment sp env of
        Inl e \<Rightarrow> (Some e, s)
      | Inr environment \<Rightarrow>
          refresh_loop sp envs (s\<lparr>environments := environments s @ [environment]\<rparr>))"

text \<open>
  \<^verbatim>\<open>refresh_environments\<close>. \<open>env_data\<close> is the outcome of the call
  \<^verbatim>\<open>self.pac_cli.get_environments()\<close>: the value returned or the exception raised.
  The whole body is inside \<^verbatim>\<open>try ... except Exception: return False\<close>.
\<close>

definition refresh_environments ::
  "strptime_fun \<Rightarrow> exn + pyval \<Rightarrow> EnvironmentManager \<Rightarrow> bool \<times> EnvironmentManager" where
  "refresh_environments sp env_data s =
     (case env_data of
        Inl e \<Rightarrow> (False, s)
      | Inr data \<Rightarrow>
          let s1 = s\<lparr>environments := [], environments_id := next_id s,
                     next_id := Suc (next_id s)\<rparr>
          in case py_iter data of
               Inl e \<Rightarrow> (False, s1)
             | Inr envs \<Rightarrow>
                 (case refresh_loop sp envs s1 of
                    (Some e, s2) \<Rightarrow> (False, s2)
                  | (None, s2) \<Rightarrow> (True, s2)))"

text \<open>\<^verbatim>\<open>EnvironmentManager.get_environments\<close>: a copy of the list.\<close>

definition manager_get_environments :: "EnvironmentManager \<Rightarrow> PowerPlatformEnvironment list" where
  "manager_get_environments s = environments s"

text \<open>
  \<^verbatim>\<open>EnvironmentManager.select_environment\<close>. \<open>pac_select\<close> is the call
  \<^verbatim>\<open>self.pac_cli.select_environment\<close>: given the URL it returns a boolean or raises.
\<close>

definition manager_select_environment ::
  "(pyval \<Rightarrow> exn + bool) \<Rightarrow> EnvironmentManager \<Rightarrow> PowerPlatformEnvironment
     \<Rightarrow> bool \<times> EnvironmentManager" where
  "manager_select_environment pac_select s environment =
     (case pac_select (url environment) of
        Inl e \<Rightarrow> (False, s)
      | Inr ok \<Rightarrow>
          if ok then (True, s\<lparr>current_environment := Some environment\<rparr>)
          else (False, s))"

text \<open>
  The wrapper's \<^verbatim>\<open>select_environment\<close> as the manager calls it, with whatever the
  \<^verbatim>\<open>url\<close> field holds: \<^verbatim>\<open>' '.join(full_command)\<close> in \<^verbatim>\<open>run_command\<close> raises
  \<open>TypeError\<close> on an item that is not a string, before any process is started.
\<close>

definition pac_cli_select_environment :: "subprocess \<Rightarrow> pyval \<Rightarrow> exn + bool" where
  "pac_cli_select_environment sp v =
     (case v of PStr environment_url \<Rightarrow> select_environment sp environment_url
      | _ \<Rightarrow> Inl TypeError)"

definition manager_get_current_environment ::
  "EnvironmentManager \<Rightarrow> PowerPlatformEnvironment option" where
  "manager_get_current_environment s = current_environment s"

text \<open>\<^verbatim>\<open>str.lower\<close>, on ASCII letters.\<close>

definition lower_char :: "char \<Rightarrow> char" where
  "lower_char c =
     (case map_of (zip ''ABCDEFGHIJKLMNOPQRSTUVWXYZ'' ''abcdefghijklmnopqrstuvwxyz'') c of
        Some l \<Rightarrow> l
      | None \<Rightarrow> c)"



















section \<open>datetime.strptime for the three formats\<close>

text \<open>
  \<^verbatim>\<open>datetime.strptime\<close> belongs to the Python standard library. This is its behaviour
  (CPython, \<^verbatim>\<open>Lib/_strptime.py\<close>) on ASCII text for formats made of the directives
  \<^verbatim>\<open>%Y %m %d %H %M %S %f\<close>, literal characters and white space, with \<^verbatim>\<open>%Y\<close>, \<^verbatim>\<open>%m\<close>
  and \<^verbatim>\<open>%d\<close> present: the format becomes a regular expression, matched at the start of
  the text without regard to letter case; the text must end where the match ends; the
  fields found must form a date that exists and a second below 60. Every failure on a
  string is a \<open>ValueError\<close>; an argument that is not a string is a \<open>TypeError\<close>.
\<close>

definition is_digit :: "char \<Rightarrow> bool" where
  "is_digit c = (c \<in> set ''0123456789'')"

definition is_space :: "char \<Rightarrow> bool" where
  "is_space c = (let n = (of_char c :: nat) in (9 \<le> n \<and> n \<le> 13) \<or> (28 \<le> n \<and> n \<le> 32))"

definition digit_value :: "char \<Rightarrow> int" where
  "digit_value c = int (of_char c) - 48"

text \<open>\<^verbatim>\<open>int(text)\<close> on digits, possibly with a blank in front.\<close>

definition int_of_digits :: "string \<Rightarrow> int" where
  "int_of_digits s = foldl (\<lambda>a c. 10 * a + digit_value c) 0 (filter is_digit s)"

text \<open>
  A matcher lists the ways its pattern matches at the start of a text, in the order a
  backtracking matcher tries them: each is the text matched and the rest.
\<close>

type_synonym matcher = "string \<Rightarrow> (string \<times> string) list"

definition two_chars :: "string \<Rightarrow> string \<Rightarrow> matcher" where
  "two_chars a b s =
     (case s of
        c1 # c2 # r \<Rightarrow> if c1 \<in> set a \<and> c2 \<in> set b then [([c1, c2], r)] else []
      | _ \<Rightarrow> [])"

definition one_char :: "string \<Rightarrow> matcher" where
  "one_char a s = (case s of c # r \<Rightarrow> if c \<in> set a then [([c], r)] else [] | _ \<Rightarrow> [])"

definition alt :: "matcher \<Rightarrow> matcher \<Rightarrow> matcher" where
  "alt p q s = p s @ q s"

definition digits :: string where
  "digits = ''0123456789''"

text \<open>A character class repeated greedily, from once to \<open>n\<close> times: longest first.\<close>

definition greedy :: "(char \<Rightarrow> bool) \<Rightarrow> nat \<Rightarrow> matcher" where
  "greedy P n s =
     (let k = min n (length (takeWhile P s))
      in map (\<lambda>j. (take j s, drop j s)) (rev [1..<Suc k]))"

text \<open>
  The patterns of the directives: \<^verbatim>\<open>\d\d\d\d\<close>, \<^verbatim>\<open>1[0-2]|0[1-9]|[1-9]\<close>,
  \<^verbatim>\<open>3[0-1]|[1-2]\d|0[1-9]|[1-9]| [1-9]\<close>, \<^verbatim>\<open>2[0-3]|[0-1]\d|\d\<close>, \<^verbatim>\<open>[0-5]\d|\d\<close>,
  \<^verbatim>\<open>6[0-1]|[0-5]\d|\d\<close>, \<^verbatim>\<open>[0-9]{1,6}\<close>; white space in the format is \<^verbatim>\<open>\s+\<close>.
\<close>

definition re_Y :: matcher where
  "re_Y s =
     (if length s \<ge> 4 \<and> list_all is_digit (take 4 s) then [(take 4 s, drop 4 s)] else [])"

definition re_m :: matcher where
  "re_m = alt (two_chars ''1'' ''012'')
            (alt (two_chars ''0'' ''123456789'') (one_char ''123456789''))"

definition re_d :: matcher where
  "re_d = alt (two_chars ''3'' ''01'')
            (alt (two_chars ''12'' digits)
               (alt (two_chars ''0'' ''123456789'')
                  (alt (one_char ''123456789'') (two_chars '' '' ''123456789''))))"

definition re_H :: matcher where
  "re_H = alt (two_chars ''2'' ''0123'') (alt (two_chars ''01'' digits) (one_char digits))"

definition re_M :: matcher where
  "re_M = alt (two_chars ''012345'' digits) (one_char digits)"

definition re_S :: matcher where
  "re_S = alt (two_chars ''6'' ''01'') (alt (two_chars ''012345'' digits) (one_char digits))"

definition re_f :: matcher where
  "re_f = greedy is_digit 6"

definition re_space :: matcher where
  "re_space s = greedy is_space (length s) s"

definition re_lit :: "char \<Rightarrow> matcher" where
  "re_lit c s =
     (case s of x # r \<Rightarrow> if lower_char x = lower_char c then [([x], r)] else [] | _ \<Rightarrow> [])"

datatype field = FY | Fm | Fd | FH | FM | FS | Ff

datatype item = Directive field | Literal char | Spaces

definition field_of :: "char \<Rightarrow> field option" where
  "field_of c =
     (if c = CHR ''Y'' then Some FY else if c = CHR ''m'' then Some Fm
      else if c = CHR ''d'' then Some Fd else if c = CHR ''H'' then Some FH
      else if c = CHR ''M'' then Some FM else if c = CHR ''S'' then Some FS
      else if c = CHR ''f'' then Some Ff else None)"

text \<open>The format read into its items; \<open>None\<close> for a format outside the model.\<close>

fun format_items :: "string \<Rightarrow> item list option" where
  "format_items [] = Some []"
| "format_items [c] =
     (if c = CHR ''%'' then None else if is_space c then Some [Spaces] else Some [Literal c])"
| "format_items (c # c' # cs) =
     (if c = CHR ''%'' then
        (case field_of c' of
           None \<Rightarrow> None
         | Some f \<Rightarrow> map_option (\<lambda>r. Directive f # r) (format_items cs))
      else if is_space c then
        (case format_items (c' # cs) of
           None \<Rightarrow> None
         | Some (Spaces # r) \<Rightarrow> Some (Spaces # r)
         | Some r \<Rightarrow> Some (Spaces # r))
      else map_option (\<lambda>r. Literal c # r) (format_items (c' # cs)))"

fun field_matcher :: "field \<Rightarrow> matcher" where
  "field_matcher FY = re_Y"
| "field_matcher Fm = re_m"
| "field_matcher Fd = re_d"
| "field_matcher FH = re_H"
| "field_matcher FM = re_M"
| "field_matcher FS = re_S"
| "field_matcher Ff = re_f"

text \<open>
  All the matches of a list of items, in the matcher's order: the text of each field and
  the text left over. The regular expression's match is the first of them.
\<close>

fun match_items :: "item list \<Rightarrow> string \<Rightarrow> ((field \<times> string) list \<times> string) list" where
  "match_items [] s = [([], s)]"
| "match_items (Directive f # is) s =
     concat (map (\<lambda>(m, r). map (\<lambda>(g, r'). ((f, m) # g, r')) (match_items is r))
               (field_matcher f s))"
| "match_items (Literal c # is) s = concat (map (\<lambda>(m, r). match_items is r) (re_lit c s))"
| "match_items (Spaces # is) s = concat (map (\<lambda>(m, r). match_items is r) (re_space s))"

definition leap_year :: "int \<Rightarrow> bool" where
  "leap_year y = (y mod 4 = 0 \<and> (y mod 100 \<noteq> 0 \<or> y mod 400 = 0))"

definition days_in_month :: "int \<Rightarrow> int \<Rightarrow> int" where
  "days_in_month y m =
     (if m = 2 then (if leap_year y then 29 else 28)
      else if m = 4 \<or> m = 6 \<or> m = 9 \<or> m = 11 then 30 else 31)"

definition group_int :: "(field \<times> string) list \<Rightarrow> field \<Rightarrow> int" where
  "group_int g f = (case map_of g f of None \<Rightarrow> 0 | Some t \<Rightarrow> int_of_digits t)"

text \<open>\<^verbatim>\<open>%f\<close>: the digits found, padded with zeros on the right to six.\<close>

definition fraction :: "(field \<times> string) list \<Rightarrow> int" where
  "fraction g =
     (case map_of g Ff of
        None \<Rightarrow> 0
      | Some t \<Rightarrow> int_of_digits (t @ replicate (6 - length t) (CHR ''0'')))"

definition datetime_of_groups :: "(field \<times> string) list \<Rightarrow> exn + datetime" where
  "datetime_of_groups g =
     (let y = group_int g FY; mo = group_int g Fm; d = group_int g Fd; s = group_int g FS
      in if 1 \<le> y \<and> 1 \<le> d \<and> d \<le> days_in_month y mo \<and> s \<le> 59 then
           Inr \<lparr>year = y, month = mo, day = d, hour = group_int g FH,
                minute = group_int g FM, second = s, microsecond = fraction g\<rparr>
         else Inl ValueError)"

fun directives :: "item list \<Rightarrow> field list" where
  "directives [] = []"
| "directives (Directive f # is) = f # directives is"
| "directives (_ # is) = directives is"

definition supported :: "item list \<Rightarrow> bool" where
  "supported is =
     (distinct (directives is) \<and> FY \<in> set (directives is)
      \<and> Fm \<in> set (directives is) \<and> Fd \<in> set (directives is))"

definition strptime :: strptime_fun where
  "strptime date_string fmt =
     (case date_string of
        PStr s \<Rightarrow>
          (case format_items fmt of
             None \<Rightarrow> Inl (OtherError ''format outside the model'')
           | Some is \<Rightarrow>
               if \<not> supported is then Inl (OtherError ''format outside the model'')
               else (case match_items is s of
                       [] \<Rightarrow> Inl ValueError
                     | (g, rest) # _ \<Rightarrow>
                         if rest \<noteq> [] then Inl ValueError else datetime_of_groups g))
      | _ \<Rightarrow> Inl TypeError)"

section \<open>Examples, and the predicates the statements use\<close>

text \<open>
  A process that takes five seconds: asked for the version with a limit of two seconds
  it times out, with a limit of thirty it completes with exit code 0.
\<close>

definition slow_pac :: subprocess where
  "slow_pac argv t = (if t < 5 then Inl TimeoutExpired else Inr (CompletedProcess 0 ''1.0'' []))"

text \<open>
  A process that prints the same text for every command and exits with code 0, and a
  decoder that knows two texts: a JSON array of two objects and the empty array. Every
  other text is not JSON for it.
\<close>

definition printing :: "string \<Rightarrow> subprocess" where
  "printing out argv t = Inr (CompletedProcess 0 out [])"

definition two_records :: "pyval list" where
  "two_records =
     [PDict [(''EnvironmentName'', PStr ''prod-eu''), (''FriendlyName'', PStr ''Production EU'')],
      PDict [(''EnvironmentName'', PStr ''dev-us''), (''FriendlyName'', PStr ''Development US'')]]"

definition two_records_text :: string where
  \<open>two_records_text =
     ''[{"EnvironmentName": "prod-eu", "FriendlyName": "Production EU"}, '' @
     ''{"EnvironmentName": "dev-us", "FriendlyName": "Development US"}]''\<close>

definition small_loads :: json_loads where
  "small_loads s =
     (if s = two_records_text then Inr (PList two_records)
      else if s = ''[]'' then Inr (PList [])
      else Inl JSONDecodeError)"

text \<open>A process that needs four hundred seconds.\<close>

definition minutes_pac :: subprocess where
  "minutes_pac argv t = (if t < 400 then Inl TimeoutExpired else Inr (CompletedProcess 0 [] []))"

text \<open>A process that exits at once with a given code, and a missing executable.\<close>

definition exiting :: "int \<Rightarrow> subprocess" where
  "exiting rc argv t = Inr (CompletedProcess rc [] (if rc = 0 then [] else ''Error: failed''))"

definition missing_pac :: subprocess where
  "missing_pac argv t = Inl FileNotFoundError"

text \<open>
  Three environments and a manager that holds the first two, the first one selected.
\<close>

definition example_env :: "string \<Rightarrow> string \<Rightarrow> string \<Rightarrow> PowerPlatformEnvironment" where
  "example_env n d t =
     \<lparr>name = PStr n, display_name = PStr d, url = PStr (''https://'' @ n @ ''.crm.dynamics.com''),
      region = PStr ''europe'', environment_type = PStr t, state = PStr ''Ready'',
      created_time = None\<rparr>"

definition prod_eu :: PowerPlatformEnvironment where
  "prod_eu = example_env ''prod-eu'' ''Production EU'' ''Production''"

definition dev_us :: PowerPlatformEnvironment where
  "dev_us = example_env ''dev-us'' ''Development US'' ''Sandbox''"

definition staging :: PowerPlatformEnvironment where
  "staging = example_env ''staging'' ''Staging'' ''Sandbox''"

definition two_envs :: EnvironmentManager where
  "two_envs = \<lparr>environments = [prod_eu, dev_us], environments_id = 1, next_id = 2,
                current_environment = Some prod_eu\<rparr>"

text \<open>A decoded listing whose second element is not an object.\<close>

definition bad_listing :: pyval where
  "bad_listing = PList [PDict [(''EnvironmentName'', PStr ''new-env'')], PInt 1]"

text \<open>A value that is a dictionary (a decoded JSON object).\<close>

fun is_dict :: "pyval \<Rightarrow> bool" where
  "is_dict (PDict kvs) = True"
| "is_dict v = False"

text \<open>A \<^verbatim>\<open>datetime\<close> cut to whole seconds.\<close>

definition to_seconds :: "datetime \<Rightarrow> datetime" where
  "to_seconds d = d\<lparr>microsecond := 0\<rparr>"

text \<open>
  A decoded listing of three records, the second with a creation time that matches no
  format, and the instant the other two name.
\<close>

definition three_records :: "pyval list" where
  "three_records =
     [PDict [(''EnvironmentName'', PStr ''prod-eu''), (''CreatedTime'', PStr ''2024-01-15T10:30:00Z'')],
      PDict [(''EnvironmentName'', PStr ''dev-us''), (''CreatedTime'', PStr ''not-a-date'')],
      PDict [(''EnvironmentName'', PStr ''test-us''), (''CreatedTime'', PStr ''2024-01-15 10:30:00'')]]"

definition half_past_ten :: datetime where
  "half_past_ten = \<lparr>year = 2024, month = 1, day = 15, hour = 10, minute = 30, second = 0,
                     microsecond = 0\<rparr>"















section \<open>Results\<close>

subsection \<open>run\_command\<close>

lemma run_command_completed:
  "sp (''pac'' # cmd) t = Inr (CompletedProcess rc out err) \<Longrightarrow>
   run_command sp cmd t =
     Inr \<lparr>success = (rc = 0), stdout = out, stderr = err, returncode = rc,
          command = join_space (''pac'' # cmd)\<rparr>"
  by (simp add: run_command_def)

lemma run_command_timeout:
  "sp (''pac'' # cmd) t = Inl TimeoutExpired \<Longrightarrow>
   run_command sp cmd t =
     Inr \<lparr>success = False, stdout = [], stderr = ''Command timed out'',
          returncode = - 1, command = join_space (''pac'' # cmd)\<rparr>"
  by (simp add: run_command_def)

lemma run_command_raises:
  "sp (''pac'' # cmd) t = Inl e \<Longrightarrow> e \<noteq> TimeoutExpired \<Longrightarrow>
   run_command sp cmd t = Inl e"
  by (simp add: run_command_def)

text \<open>
  C2. Whenever the process completes or times out, \<open>run_command\<close> returns a result
  (it does not raise). When the process completes with exit code \<open>rc\<close>, the result
  carries that exit code and its success flag is true iff \<open>rc = 0\<close>. On a timeout the
  result has \<open>success = False\<close>, \<open>returncode = -1\<close> and
  \<open>stderr = ''Command timed out''\<close>. So in every returned result the success flag is
  true iff the process completed, without timing out, with exit code zero.
\<close>

theorem run_command_result:
  "(\<forall>rc out err. sp (''pac'' # cmd) t = Inr (CompletedProcess rc out err) \<longrightarrow>
      (\<exists>r. run_command sp cmd t = Inr r \<and> success r = (rc = 0) \<and> returncode r = rc
           \<and> stdout r = out \<and> stderr r = err))
   \<and> (sp (''pac'' # cmd) t = Inl TimeoutExpired \<longrightarrow>
      (\<exists>r. run_command sp cmd t = Inr r \<and> \<not> success r \<and> returncode r = - 1
           \<and> stderr r = ''Command timed out''))
   \<and> (\<forall>r. run_command sp cmd t = Inr r \<longrightarrow>
      (success r \<longleftrightarrow> (\<exists>out err. sp (''pac'' # cmd) t = Inr (CompletedProcess 0 out err))))
   \<and> (\<forall>r. run_command sp cmd t = Inr r \<longrightarrow>
      (success r \<longleftrightarrow> returncode r = 0 \<and> sp (''pac'' # cmd) t \<noteq> Inl TimeoutExpired))
   \<and> (\<forall>cp. sp (''pac'' # cmd) t = Inr cp \<longrightarrow> (\<exists>r. run_command sp cmd t = Inr r))"
proof (intro conjI allI impI)
  fix rc out err
  assume "sp (''pac'' # cmd) t = Inr (CompletedProcess rc out err)"
  then show "\<exists>r. run_command sp cmd t = Inr r \<and> success r = (rc = 0) \<and> returncode r = rc
      \<and> stdout r = out \<and> stderr r = err"
    by (simp add: run_command_completed)
next
  assume "sp (''pac'' # cmd) t = Inl TimeoutExpired"
  then show "\<exists>r. run_command sp cmd t = Inr r \<and> \<not> success r \<and> returncode r = - 1
      \<and> stderr r = ''Command timed out''"
    by (simp add: run_command_timeout)
next
  fix r
  assume ret: "run_command sp cmd t = Inr r"
  show "success r \<longleftrightarrow> (\<exists>out err. sp (''pac'' # cmd) t = Inr (CompletedProcess 0 out err))"
  proof (cases "sp (''pac'' # cmd) t")
    case (Inl e)
    with ret show ?thesis
      by (cases "e = TimeoutExpired") (auto simp: run_command_def)
  next
    case (Inr cp)
    obtain rc out err where "cp = CompletedProcess rc out err"
      by (cases cp)
    with Inr ret show ?thesis
      by (auto simp: run_command_def)
  qed
next
  fix r
  assume ret: "run_command sp cmd t = Inr r"
  show "success r \<longleftrightarrow> returncode r = 0 \<and> sp (''pac'' # cmd) t \<noteq> Inl TimeoutExpired"
  proof (cases "sp (''pac'' # cmd) t")
    case (Inl e)
    with ret show ?thesis
      by (cases "e = TimeoutExpired") (auto simp: run_command_def)
  next
    case (Inr cp)
    obtain rc out err where "cp = CompletedProcess rc out err"
      by (cases cp)
    with Inr ret show ?thesis
      by (auto simp: run_command_def)
  qed
next
  fix cp
  assume c: "sp (''pac'' # cmd) t = Inr cp"
  obtain rc out err where "cp = CompletedProcess rc out err"
    by (cases cp)
  with c show "\<exists>r. run_command sp cmd t = Inr r"
    by (simp add: run_command_completed)
qed

theorem run_command_result_witness:
  "slow_pac [''pac'', ''--version''] 2 = Inl TimeoutExpired
   \<and> (\<exists>r. run_command slow_pac [''--version''] 2 = Inr r \<and> \<not> success r
        \<and> returncode r = - 1 \<and> stderr r = ''Command timed out'')
   \<and> slow_pac [''pac'', ''--version''] 30 = Inr (CompletedProcess 0 ''1.0'' [])
   \<and> (\<exists>r. run_command slow_pac [''--version''] 30 = Inr r \<and> success r \<and> returncode r = 0
        \<and> stdout r = ''1.0'' \<and> stderr r = [])
   \<and> exiting 1 [''pac'', ''org'', ''list''] 30 = Inr (CompletedProcess 1 [] ''Error: failed'')
   \<and> (\<exists>r. run_command (exiting 1) [''org'', ''list''] 30 = Inr r \<and> \<not> success r
        \<and> returncode r = 1 \<and> stdout r = [] \<and> stderr r = ''Error: failed'')"
proof -
  have h: "slow_pac (''pac'' # [''--version'']) 2 = Inl TimeoutExpired"
    by (simp add: slow_pac_def)
  have c: "slow_pac (''pac'' # [''--version'']) 30 = Inr (CompletedProcess 0 ''1.0'' [])"
    by (simp add: slow_pac_def)
  have f: "exiting 1 (''pac'' # [''org'', ''list'']) 30 = Inr (CompletedProcess 1 [] ''Error: failed'')"
    by (simp add: exiting_def)
  have r1: "\<exists>r. run_command slow_pac [''--version''] 2 = Inr r \<and> \<not> success r
        \<and> returncode r = - 1 \<and> stderr r = ''Command timed out''"
    using run_command_result [of slow_pac "[''--version'']" 2, THEN conjunct2, THEN conjunct1] h
    by blast
  have "\<exists>r. run_command slow_pac [''--version''] 30 = Inr r \<and> success r = ((0::int) = 0)
        \<and> returncode r = 0 \<and> stdout r = ''1.0'' \<and> stderr r = []"
    using run_command_result [of slow_pac "[''--version'']" 30, THEN conjunct1] c
    by blast
  then have r2: "\<exists>r. run_command slow_pac [''--version''] 30 = Inr r \<and> success r
        \<and> returncode r = 0 \<and> stdout r = ''1.0'' \<and> stderr r = []"
    by simp
  have "\<exists>r. run_command (exiting 1) [''org'', ''list''] 30 = Inr r \<and> success r = ((1::int) = 0)
        \<and> returncode r = 1 \<and> stdout r = [] \<and> stderr r = ''Error: failed''"
    using run_command_result [of "exiting 1" "[''org'', ''list'']" 30, THEN conjunct1] f
    by blast
  then have r3: "\<exists>r. run_command (exiting 1) [''org'', ''list''] 30 = Inr r \<and> \<not> success r
        \<and> returncode r = 1 \<and> stdout r = [] \<and> stderr r = ''Error: failed''"
    by simp
  from h r1 c r2 f r3 show ?thesis
    by simp
qed

subsection \<open>Listing environments and solutions\<close>



text \<open>
  C4. When the listing command exits with code 0 and its output decodes to a JSON array,
  \<open>get_environments\<close> and \<open>get_solutions\<close> return that array itself: the same length
  and, position by position, the decoded elements unchanged.
\<close>

theorem listing_wellformed_json_roundtrip:
  assumes "loads out = Inr (PList xs)"
  shows "(sp [''pac'', ''org'', ''list'', ''--json''] 30 = Inr (CompletedProcess 0 out err)
            \<longrightarrow> (\<exists>ys. get_environments loads sp = Inr (PList ys) \<and> length ys = length xs
                   \<and> ys = xs))
       \<and> (sp [''pac'', ''solution'', ''list'', ''--json''] 30 = Inr (CompletedProcess 0 out err)
            \<longrightarrow> (\<exists>ys. get_solutions loads sp = Inr (PList ys) \<and> length ys = length xs
                   \<and> ys = xs))"
  using assms
  by (simp add: get_environments_def get_solutions_def run_command_def default_timeout_def)

theorem listing_wellformed_json_roundtrip_witness:
  "small_loads two_records_text = Inr (PList two_records)
   \<and> printing two_records_text [''pac'', ''org'', ''list'', ''--json''] 30 =
       Inr (CompletedProcess 0 two_records_text [])
   \<and> get_environments small_loads (printing two_records_text) = Inr (PList two_records)
   \<and> printing two_records_text [''pac'', ''solution'', ''list'', ''--json''] 30 =
       Inr (CompletedProcess 0 two_records_text [])
   \<and> get_solutions small_loads (printing two_records_text) = Inr (PList two_records)
   \<and> length two_records = 2"
proof -
  have h: "small_loads two_records_text = Inr (PList two_records)"
    by (simp add: small_loads_def)
  have p1: "printing two_records_text [''pac'', ''org'', ''list'', ''--json''] 30 =
       Inr (CompletedProcess 0 two_records_text [])"
    by (simp add: printing_def)
  have p2: "printing two_records_text [''pac'', ''solution'', ''list'', ''--json''] 30 =
       Inr (CompletedProcess 0 two_records_text [])"
    by (simp add: printing_def)
  note t = listing_wellformed_json_roundtrip
    [where loads = small_loads and out = two_records_text and xs = two_records
       and sp = "printing two_records_text" and err = "[]", OF h]
  have l: "length two_records = 2"
    by (simp add: two_records_def)
  from t p1 p2 h l show ?thesis by blast
qed

subsection \<open>Exporting and importing solutions\<close>

lemma run_command_cong:
  "sp (''pac'' # cmd) t = sp' (''pac'' # cmd) t \<Longrightarrow> run_command sp cmd t = run_command sp' cmd t"
  by (simp add: run_command_def)

text \<open>
  C9 (amended). \<open>export_solution\<close> runs, under a limit of 300 seconds, the command
  \<^verbatim>\<open>solution export --name <name> --path <path>\<close> followed by \<^verbatim>\<open>--managed\<close> exactly when
  the managed flag is set; \<open>import_solution\<close> runs, under a limit of 600 seconds,
  \<^verbatim>\<open>solution import --path <path>\<close> followed by \<^verbatim>\<open>--publish-changes\<close> exactly when
  publishing is requested. When the name and the path are not themselves the flag text,
  the command contains the flag iff it was requested. The methods that pass no limit
  (listing, selection, identity, authentication) depend on the process only under the
  default limit of 30 seconds.
\<close>

theorem solution_commands_and_timeouts:
  "export_solution_command n p m =
     [''solution'', ''export'', ''--name'', n, ''--path'', p] @ (if m then [''--managed''] else [])
   \<and> (n \<noteq> ''--managed'' \<and> p \<noteq> ''--managed'' \<longrightarrow>
        (''--managed'' \<in> set (export_solution_command n p m) \<longleftrightarrow> m))
   \<and> export_solution sp n p m =
        (case run_command sp (export_solution_command n p m) 300 of
           Inl e \<Rightarrow> Inl e | Inr r \<Rightarrow> Inr (success r))
   \<and> import_solution_command q w =
        [''solution'', ''import'', ''--path'', q] @ (if w then [''--publish-changes''] else [])
   \<and> (q \<noteq> ''--publish-changes'' \<longrightarrow>
        (''--publish-changes'' \<in> set (import_solution_command q w) \<longleftrightarrow> w))
   \<and> import_solution sp q w =
        (case run_command sp (import_solution_command q w) 600 of
           Inl e \<Rightarrow> Inl e | Inr r \<Rightarrow> Inr (success r))
   \<and> (300 :: int) < 600
   \<and> default_timeout = 30
   \<and> ((\<forall>argv. sp argv 30 = sp' argv 30) \<longrightarrow>
        get_environments loads sp = get_environments loads sp'
        \<and> get_solutions loads sp = get_solutions loads sp'
        \<and> get_current_environment loads sp = get_current_environment loads sp'
        \<and> select_environment sp u = select_environment sp' u
        \<and> authenticate sp = authenticate sp')"
proof (intro conjI)
  show "export_solution_command n p m =
     [''solution'', ''export'', ''--name'', n, ''--path'', p] @ (if m then [''--managed''] else [])"
    by (simp add: export_solution_command_def Let_def)
  show "n \<noteq> ''--managed'' \<and> p \<noteq> ''--managed'' \<longrightarrow>
        (''--managed'' \<in> set (export_solution_command n p m) \<longleftrightarrow> m)"
    by (auto simp: export_solution_command_def Let_def)
  show "export_solution sp n p m =
        (case run_command sp (export_solution_command n p m) 300 of
           Inl e \<Rightarrow> Inl e | Inr r \<Rightarrow> Inr (success r))"
    by (simp add: export_solution_def split: sum.split)
  show "import_solution_command q w =
        [''solution'', ''import'', ''--path'', q] @ (if w then [''--publish-changes''] else [])"
    by (simp add: import_solution_command_def Let_def)
  show "q \<noteq> ''--publish-changes'' \<longrightarrow>
        (''--publish-changes'' \<in> set (import_solution_command q w) \<longleftrightarrow> w)"
    by (auto simp: import_solution_command_def Let_def)
  show "import_solution sp q w =
        (case run_command sp (import_solution_command q w) 600 of
           Inl e \<Rightarrow> Inl e | Inr r \<Rightarrow> Inr (success r))"
    by (simp add: import_solution_def split: sum.split)
  show "(300 :: int) < 600" by simp
  show "default_timeout = 30" by (simp add: default_timeout_def)
  show "(\<forall>argv. sp argv 30 = sp' argv 30) \<longrightarrow>
        get_environments loads sp = get_environments loads sp'
        \<and> get_solutions loads sp = get_solutions loads sp'
        \<and> get_current_environment loads sp = get_current_environment loads sp'
        \<and> select_environment sp u = select_environment sp' u
        \<and> authenticate sp = authenticate sp'"
  proof
    assume a: "\<forall>argv. sp argv 30 = sp' argv 30"
    have r: "run_command sp cmd 30 = run_command sp' cmd 30" for cmd
      by (rule run_command_cong) (simp add: a)
    show "get_environments loads sp = get_environments loads sp'
        \<and> get_solutions loads sp = get_solutions loads sp'
        \<and> get_current_environment loads sp = get_current_environment loads sp'
        \<and> select_environment sp u = select_environment sp' u
        \<and> authenticate sp = authenticate sp'"
      by (simp add: get_environments_def get_solutions_def get_current_environment_def
          select_environment_def authenticate_def default_timeout_def r)
  qed
qed

theorem solution_commands_and_timeouts_witness:
  "''Core'' \<noteq> ''--managed'' \<and> ''out.zip'' \<noteq> ''--managed''
   \<and> ''--managed'' \<in> set (export_solution_command ''Core'' ''out.zip'' True)
   \<and> ''--managed'' \<notin> set (export_solution_command ''Core'' ''out.zip'' False)
   \<and> ''out.zip'' \<noteq> ''--publish-changes''
   \<and> ''--publish-changes'' \<in> set (import_solution_command ''out.zip'' True)
   \<and> ''--publish-changes'' \<notin> set (import_solution_command ''out.zip'' False)
   \<and> export_solution minutes_pac ''Core'' ''out.zip'' True = Inr False
   \<and> import_solution minutes_pac ''out.zip'' True = Inr True"
proof -
  note t1 = solution_commands_and_timeouts
    [where n = "''Core''" and p = "''out.zip''" and m = True and q = "''out.zip''" and w = True
       and sp = minutes_pac and sp' = minutes_pac and loads = small_loads and u = "[]"]
  note t2 = solution_commands_and_timeouts
    [where n = "''Core''" and p = "''out.zip''" and m = False and q = "''out.zip''" and w = False
       and sp = minutes_pac and sp' = minutes_pac and loads = small_loads and u = "[]"]
  have a: "''Core'' \<noteq> ''--managed'' \<and> ''out.zip'' \<noteq> ''--managed''"
    by simp
  have b: "''out.zip'' \<noteq> ''--publish-changes''"
    by simp
  have c1: "''--managed'' \<in> set (export_solution_command ''Core'' ''out.zip'' True)"
    using t1 [THEN conjunct2, THEN conjunct1] a by blast
  have c2: "''--managed'' \<notin> set (export_solution_command ''Core'' ''out.zip'' False)"
    using t2 [THEN conjunct2, THEN conjunct1] a by blast
  have c3: "''--publish-changes'' \<in> set (import_solution_command ''out.zip'' True)"
    using t1 [THEN conjunct2, THEN conjunct2, THEN conjunct2, THEN conjunct2, THEN conjunct1] b
    by blast
  have c4: "''--publish-changes'' \<notin> set (import_solution_command ''out.zip'' False)"
    using t2 [THEN conjunct2, THEN conjunct2, THEN conjunct2, THEN conjunct2, THEN conjunct1] b
    by blast
  have r1: "run_command minutes_pac (export_solution_command ''Core'' ''out.zip'' True) 300 =
      Inr \<lparr>success = False, stdout = [], stderr = ''Command timed out'', returncode = - 1,
           command = join_space (''pac'' # export_solution_command ''Core'' ''out.zip'' True)\<rparr>"
    by (simp add: run_command_def minutes_pac_def)
  have r2: "run_command minutes_pac (import_solution_command ''out.zip'' True) 600 =
      Inr \<lparr>success = True, stdout = [], stderr = [], returncode = 0,
           command = join_space (''pac'' # import_solution_command ''out.zip'' True)\<rparr>"
    by (simp add: run_command_def minutes_pac_def)
  have e: "export_solution minutes_pac ''Core'' ''out.zip'' True = Inr False"
    by (simp add: t1 [THEN conjunct2, THEN conjunct2, THEN conjunct1] r1)
  have i: "import_solution minutes_pac ''out.zip'' True = Inr True"
    by (simp add: t1 [THEN conjunct2, THEN conjunct2, THEN conjunct2, THEN conjunct2,
          THEN conjunct2, THEN conjunct1] r2)
  from a b c1 c2 c3 c4 e i show ?thesis
    by (intro conjI) blast+
qed

text \<open>
  The claim as stated fails when the solution name is the flag text: the command of an
  export that is not managed contains \<^verbatim>\<open>--managed\<close>.
\<close>

theorem export_flag_counterexample:
  "\<not> (''--managed'' \<in> set (export_solution_command ''--managed'' ''out.zip'' False) \<longleftrightarrow> False)"
  by (simp add: export_solution_command_def Let_def)

subsection \<open>Selecting an environment\<close>

lemma wrapper_select_failure:
  assumes "sp [''pac'', ''org'', ''select'', ''--environment'', u] 30 = Inl TimeoutExpired
     \<or> (\<exists>rc out err. sp [''pac'', ''org'', ''select'', ''--environment'', u] 30 =
           Inr (CompletedProcess rc out err) \<and> rc \<noteq> 0)"
  shows "select_environment sp u = Inr False"
  using assms
  by (auto simp: select_environment_def run_command_def default_timeout_def)

text \<open>
  C6. When the wrapper's selection call returns false, \<open>manager_select_environment\<close>
  returns false and the manager is unchanged, so the current environment is what it
  was; with the real wrapper this is the case on a non-zero exit code and on a timeout.
  When the call returns true the argument becomes the current environment, whether or
  not it is in the catalog. Whenever the method returns false the manager is unchanged.
\<close>

theorem select_failure_keeps_current:
  "(pac_select (url env) = Inr False \<longrightarrow>
      manager_select_environment pac_select s env = (False, s))
   \<and> (pac_select (url env) = Inr True \<longrightarrow>
      manager_select_environment pac_select s env =
        (True, s\<lparr>current_environment := Some env\<rparr>))
   \<and> (url env = PStr u
       \<and> (sp [''pac'', ''org'', ''select'', ''--environment'', u] 30 = Inl TimeoutExpired
          \<or> (\<exists>rc out err. sp [''pac'', ''org'', ''select'', ''--environment'', u] 30 =
                Inr (CompletedProcess rc out err) \<and> rc \<noteq> 0)) \<longrightarrow>
      manager_select_environment (pac_cli_select_environment sp) s env = (False, s))
   \<and> (\<not> fst (manager_select_environment pac_select s env) \<longrightarrow>
      snd (manager_select_environment pac_select s env) = s)"
proof (intro conjI impI)
  assume "pac_select (url env) = Inr False"
  then show "manager_select_environment pac_select s env = (False, s)"
    by (simp add: manager_select_environment_def)
next
  assume "pac_select (url env) = Inr True"
  then show "manager_select_environment pac_select s env =
      (True, s\<lparr>current_environment := Some env\<rparr>)"
    by (simp add: manager_select_environment_def)
next
  assume a: "url env = PStr u
       \<and> (sp [''pac'', ''org'', ''select'', ''--environment'', u] 30 = Inl TimeoutExpired
          \<or> (\<exists>rc out err. sp [''pac'', ''org'', ''select'', ''--environment'', u] 30 =
                Inr (CompletedProcess rc out err) \<and> rc \<noteq> 0))"
  then have "select_environment sp u = Inr False"
    by (intro wrapper_select_failure) blast
  with a show "manager_select_environment (pac_cli_select_environment sp) s env = (False, s)"
    by (simp add: manager_select_environment_def pac_cli_select_environment_def)
next
  assume "\<not> fst (manager_select_environment pac_select s env)"
  then show "snd (manager_select_environment pac_select s env) = s"
    by (simp add: manager_select_environment_def split: sum.splits if_splits)
qed

theorem select_failure_keeps_current_witness:
  "url staging = PStr ''https://staging.crm.dynamics.com''
   \<and> staging \<notin> set (environments two_envs)
   \<and> manager_select_environment (pac_cli_select_environment (exiting 1)) two_envs staging =
        (False, two_envs)
   \<and> current_environment two_envs = Some prod_eu
   \<and> pac_cli_select_environment (exiting 0) (url staging) = Inr True
   \<and> manager_select_environment (pac_cli_select_environment (exiting 0)) two_envs staging =
        (True, two_envs\<lparr>current_environment := Some staging\<rparr>)"
proof -
  have u: "url staging = PStr ''https://staging.crm.dynamics.com''"
    by (simp add: staging_def example_env_def)
  have n: "staging \<notin> set (environments two_envs)"
    by (simp add: two_envs_def staging_def prod_eu_def dev_us_def example_env_def)
  have f: "exiting 1 [''pac'', ''org'', ''select'', ''--environment'',
        ''https://staging.crm.dynamics.com''] 30 = Inr (CompletedProcess 1 [] ''Error: failed'')
      \<and> (1::int) \<noteq> 0"
    by (simp add: exiting_def)
  have ok: "pac_cli_select_environment (exiting 0) (url staging) = Inr True"
    by (simp add: u pac_cli_select_environment_def select_environment_def run_command_def
        exiting_def)
  note t1 = select_failure_keeps_current
    [where env = staging and s = two_envs and sp = "exiting 1"
       and u = "''https://staging.crm.dynamics.com''"
       and pac_select = "pac_cli_select_environment (exiting 0)"]
  have r1: "manager_select_environment (pac_cli_select_environment (exiting 1)) two_envs staging =
        (False, two_envs)"
    using t1 [THEN conjunct2, THEN conjunct2, THEN conjunct1] u f by blast
  have r2: "manager_select_environment (pac_cli_select_environment (exiting 0)) two_envs staging =
        (True, two_envs\<lparr>current_environment := Some staging\<rparr>)"
    using t1 [THEN conjunct2, THEN conjunct1] ok by blast
  have c: "current_environment two_envs = Some prod_eu"
    by (simp add: two_envs_def)
  from u n r1 c ok r2 show ?thesis
    by (intro conjI)
qed

text \<open>
  C10. When the wrapper's selection call raises, \<open>manager_select_environment\<close> returns
  false and the manager, with its current environment, is unchanged.
\<close>

theorem select_exception_returns_false:
  assumes "pac_select (url env) = Inl e"
  shows "manager_select_environment pac_select s env = (False, s)"
  using assms by (simp add: manager_select_environment_def)

theorem select_exception_returns_false_witness:
  "pac_cli_select_environment missing_pac (url staging) = Inl FileNotFoundError
   \<and> manager_select_environment (pac_cli_select_environment missing_pac) two_envs staging =
        (False, two_envs)
   \<and> pac_cli_select_environment (exiting 0) (url (staging\<lparr>url := PNone\<rparr>)) = Inl TypeError
   \<and> manager_select_environment (pac_cli_select_environment (exiting 0)) two_envs
        (staging\<lparr>url := PNone\<rparr>) = (False, two_envs)"
proof -
  have a: "pac_cli_select_environment missing_pac (url staging) = Inl FileNotFoundError"
    by (simp add: staging_def example_env_def pac_cli_select_environment_def
        select_environment_def run_command_def missing_pac_def)
  have b: "pac_cli_select_environment (exiting 0) (url (staging\<lparr>url := PNone\<rparr>)) = Inl TypeError"
    by (simp add: pac_cli_select_environment_def)
  note t1 = select_exception_returns_false
    [where pac_select = "pac_cli_select_environment missing_pac" and env = staging
       and e = FileNotFoundError and s = two_envs, OF a]
  note t2 = select_exception_returns_false
    [where pac_select = "pac_cli_select_environment (exiting 0)"
       and env = "staging\<lparr>url := PNone\<rparr>" and e = TypeError and s = two_envs, OF b]
  from a t1 b t2 show ?thesis
    by (intro conjI)
qed

subsection \<open>Refreshing the catalog\<close>

lemma refresh_facade_raises: "refresh_environments sp (Inl e) s = (False, s)"
  by (simp add: refresh_environments_def)

text \<open>
  C1 (amended). When the wrapper's listing call raises, \<open>refresh_environments\<close>
  returns false and the manager is exactly as before: the same catalog contents, the
  same list object, the same current environment. The method returns a boolean in every
  case; no exception leaves it.
\<close>

theorem refresh_facade_failure_keeps_catalog:
  "refresh_environments sp (Inl e) s = (False, s)
   \<and> environments (snd (refresh_environments sp (Inl e) s)) = environments s
   \<and> environments_id (snd (refresh_environments sp (Inl e) s)) = environments_id s
   \<and> (get_environments loads p = Inl e \<longrightarrow>
        refresh_environments sp (get_environments loads p) s = (False, s))"
  by (simp add: refresh_facade_raises)

theorem refresh_facade_failure_keeps_catalog_witness:
  "get_environments small_loads missing_pac = Inl FileNotFoundError
   \<and> refresh_environments strptime (get_environments small_loads missing_pac) two_envs =
        (False, two_envs)"
proof -
  have a: "get_environments small_loads missing_pac = Inl FileNotFoundError"
    by (simp add: get_environments_def run_command_def missing_pac_def)
  note t = refresh_facade_failure_keeps_catalog
    [where sp = strptime and e = FileNotFoundError and s = two_envs and loads = small_loads
       and p = missing_pac]
  from t [THEN conjunct2, THEN conjunct2, THEN conjunct2] a
  have "refresh_environments strptime (get_environments small_loads missing_pac) two_envs =
        (False, two_envs)"
    by blast
  with a show ?thesis by (intro conjI)
qed

text \<open>
  The claim as stated fails when the conversion of a record raises inside the loop: the
  catalog was already replaced by a new empty list, and the records converted before
  the failure stay in it. Here the manager held two environments and is left with one
  other environment, in a new list, while the method returns false.
\<close>

lemma refresh_bad_listing:
  "refresh_environments strptime (Inr bad_listing) two_envs =
     (False, \<lparr>environments =
                 [\<lparr>name = PStr ''new-env'', display_name = PStr [], url = PStr [],
                   region = PStr [], environment_type = PStr [], state = PStr [],
                   created_time = None\<rparr>],
               environments_id = 2, next_id = 3, current_environment = Some prod_eu\<rparr>)"
  by (simp add: refresh_environments_def bad_listing_def two_envs_def make_environment_def
      bind_exn_def parse_datetime_def)

theorem refresh_midloop_failure_counterexample:
  "fst (refresh_environments strptime (Inr bad_listing) two_envs) = False
   \<and> environments (snd (refresh_environments strptime (Inr bad_listing) two_envs))
        \<noteq> environments two_envs
   \<and> environments_id (snd (refresh_environments strptime (Inr bad_listing) two_envs))
        \<noteq> environments_id two_envs"
  by (simp add: refresh_bad_listing) (simp add: two_envs_def)

subsection \<open>Parsing creation times\<close>

lemma make_environment_dict:
  "make_environment sp (PDict kvs) =
     Inr \<lparr>name = (case map_of kvs ''EnvironmentName'' of Some v \<Rightarrow> v | None \<Rightarrow> PStr []),
          display_name = (case map_of kvs ''FriendlyName'' of Some v \<Rightarrow> v | None \<Rightarrow> PStr []),
          url = (case map_of kvs ''EnvironmentUrl'' of Some v \<Rightarrow> v | None \<Rightarrow> PStr []),
          region = (case map_of kvs ''Region'' of Some v \<Rightarrow> v | None \<Rightarrow> PStr []),
          environment_type = (case map_of kvs ''EnvironmentType'' of Some v \<Rightarrow> v | None \<Rightarrow> PStr []),
          state = (case map_of kvs ''State'' of Some v \<Rightarrow> v | None \<Rightarrow> PStr []),
          created_time =
            parse_datetime sp (case map_of kvs ''CreatedTime'' of Some v \<Rightarrow> v | None \<Rightarrow> PNone)\<rparr>"
  by (simp add: make_environment_def bind_exn_def)

lemma make_environment_is_dict:
  "is_dict r \<Longrightarrow> \<exists>env. make_environment sp r = Inr env"
  by (cases r) (simp_all add: make_environment_dict)

lemma refresh_loop_dicts:
  "list_all is_dict rs \<Longrightarrow>
   \<exists>envs. refresh_loop sp rs s = (None, s\<lparr>environments := environments s @ envs\<rparr>)
        \<and> map Inr envs = map (make_environment sp) rs"
proof (induction rs arbitrary: s)
  case Nil
  then show ?case by simp
next
  case (Cons r rs)
  then obtain env where e: "make_environment sp r = Inr env"
    using make_environment_is_dict by fastforce
  from Cons obtain envs where
    l: "refresh_loop sp rs (s\<lparr>environments := environments s @ [env]\<rparr>) =
          (None, s\<lparr>environments := environments s @ [env]\<rparr>
                  \<lparr>environments := environments (s\<lparr>environments := environments s @ [env]\<rparr>) @ envs\<rparr>)"
    and m: "map Inr envs = map (make_environment sp) rs"
    by fastforce
  from e l m show ?case
    by (intro exI [of _ "env # envs"]) simp
qed

lemma refresh_dicts:
  assumes "list_all is_dict rs"
  shows "fst (refresh_environments sp (Inr (PList rs)) s)
     \<and> map Inr (environments (snd (refresh_environments sp (Inr (PList rs)) s))) =
         map (make_environment sp) rs"
proof -
  let ?s1 = "s\<lparr>environments := [], environments_id := next_id s, next_id := Suc (next_id s)\<rparr>"
  from refresh_loop_dicts [OF assms, of sp ?s1] obtain envs where
    l: "refresh_loop sp rs ?s1 = (None, ?s1\<lparr>environments := environments ?s1 @ envs\<rparr>)"
    and m: "map Inr envs = map (make_environment sp) rs"
    by blast
  from l m show ?thesis
    by (simp add: refresh_environments_def)
qed

lemma parse_datetime_unfold:
  assumes "truthy v"
  shows "parse_datetime sp v =
      (case sp v ''%Y-%m-%dT%H:%M:%S.%fZ'' of
         Inr d \<Rightarrow> Some d
       | Inl e1 \<Rightarrow>
           if \<not> is_ValueError e1 then None
           else (case sp v ''%Y-%m-%dT%H:%M:%SZ'' of
                   Inr d \<Rightarrow> Some d
                 | Inl e2 \<Rightarrow>
                     if \<not> is_ValueError e2 then None
                     else (case sp v ''%Y-%m-%d %H:%M:%S'' of
                             Inr d \<Rightarrow> Some d
                           | Inl e3 \<Rightarrow> None)))"
  using assms
  by (simp add: parse_datetime_def formats_def split: sum.splits)

lemma try_formats_all_fail:
  "list_all (\<lambda>fmt. \<exists>e. sp v fmt = Inl e) fmts \<Longrightarrow> try_formats sp v fmts \<noteq> Inr (Some d)"
  by (induction fmts) (auto split: sum.splits)

lemma parse_datetime_no_format:
  assumes "list_all (\<lambda>fmt. \<exists>e. sp v fmt = Inl e) formats"
  shows "parse_datetime sp v = None"
proof (cases "try_formats sp v formats")
  case (Inl e)
  then show ?thesis by (simp add: parse_datetime_def)
next
  case (Inr r)
  from assms have "try_formats sp v formats \<noteq> Inr (Some d)" for d
    by (rule try_formats_all_fail)
  with Inr have "r = None"
    by (cases r) auto
  with Inr show ?thesis by (simp add: parse_datetime_def)
qed

lemma parse_example_fraction:
  "parse_datetime strptime (PStr ''2024-01-15T10:30:00.123456Z'') =
     Some (half_past_ten\<lparr>microsecond := 123456\<rparr>)"
  by code_simp

lemma parse_example_utc: "parse_datetime strptime (PStr ''2024-01-15T10:30:00Z'') = Some half_past_ten"
  by code_simp

lemma parse_example_space: "parse_datetime strptime (PStr ''2024-01-15 10:30:00'') = Some half_past_ten"
  by code_simp

lemma parse_example_bad: "parse_datetime strptime (PStr ''not-a-date'') = None"
  by code_simp

text \<open>
  C5. The formats are tried in the order \<^verbatim>\<open>%Y-%m-%dT%H:%M:%S.%fZ\<close>,
  \<^verbatim>\<open>%Y-%m-%dT%H:%M:%SZ\<close>, \<^verbatim>\<open>%Y-%m-%d %H:%M:%S\<close>, and the first one that parses gives
  the result (a \<open>ValueError\<close> moves on to the next format). When no format parses the
  result is absent; nothing is raised. The three example texts parse to the same instant
  to the second, and \<^verbatim>\<open>not-a-date\<close> parses to absent. A refresh over decoded objects
  succeeds and converts every record, whatever their creation times.
\<close>

theorem parse_datetime_policy:
  "formats = [''%Y-%m-%dT%H:%M:%S.%fZ'', ''%Y-%m-%dT%H:%M:%SZ'', ''%Y-%m-%d %H:%M:%S'']
   \<and> (truthy v \<longrightarrow>
        parse_datetime sp v =
          (case sp v ''%Y-%m-%dT%H:%M:%S.%fZ'' of
             Inr d \<Rightarrow> Some d
           | Inl e1 \<Rightarrow>
               if \<not> is_ValueError e1 then None
               else (case sp v ''%Y-%m-%dT%H:%M:%SZ'' of
                       Inr d \<Rightarrow> Some d
                     | Inl e2 \<Rightarrow>
                         if \<not> is_ValueError e2 then None
                         else (case sp v ''%Y-%m-%d %H:%M:%S'' of
                                 Inr d \<Rightarrow> Some d
                               | Inl e3 \<Rightarrow> None))))
   \<and> (list_all (\<lambda>fmt. \<exists>e. sp v fmt = Inl e) formats \<longrightarrow> parse_datetime sp v = None)
   \<and> map_option to_seconds (parse_datetime strptime (PStr ''2024-01-15T10:30:00.123456Z'')) =
        Some half_past_ten
   \<and> map_option to_seconds (parse_datetime strptime (PStr ''2024-01-15T10:30:00Z'')) =
        Some half_past_ten
   \<and> map_option to_seconds (parse_datetime strptime (PStr ''2024-01-15 10:30:00'')) =
        Some half_past_ten
   \<and> parse_datetime strptime (PStr ''not-a-date'') = None
   \<and> (list_all is_dict rs \<longrightarrow>
        fst (refresh_environments sp (Inr (PList rs)) s)
        \<and> map Inr (environments (snd (refresh_environments sp (Inr (PList rs)) s))) =
            map (make_environment sp) rs)"
proof (intro conjI impI)
  show "formats = [''%Y-%m-%dT%H:%M:%S.%fZ'', ''%Y-%m-%dT%H:%M:%SZ'', ''%Y-%m-%d %H:%M:%S'']"
    by (simp add: formats_def)
next
  assume "truthy v"
  then show "parse_datetime sp v =
          (case sp v ''%Y-%m-%dT%H:%M:%S.%fZ'' of
             Inr d \<Rightarrow> Some d
           | Inl e1 \<Rightarrow>
               if \<not> is_ValueError e1 then None
               else (case sp v ''%Y-%m-%dT%H:%M:%SZ'' of
                       Inr d \<Rightarrow> Some d
                     | Inl e2 \<Rightarrow>
                         if \<not> is_ValueError e2 then None
                         else (case sp v ''%Y-%m-%d %H:%M:%S'' of
                                 Inr d \<Rightarrow> Some d
                               | Inl e3 \<Rightarrow> None)))"
    by (rule parse_datetime_unfold)
next
  assume "list_all (\<lambda>fmt. \<exists>e. sp v fmt = Inl e) formats"
  then show "parse_datetime sp v = None"
    by (rule parse_datetime_no_format)
next
  show "map_option to_seconds (parse_datetime strptime (PStr ''2024-01-15T10:30:00.123456Z'')) =
        Some half_past_ten"
    by (simp add: parse_example_fraction to_seconds_def half_past_ten_def)
next
  show "map_option to_seconds (parse_datetime strptime (PStr ''2024-01-15T10:30:00Z'')) =
        Some half_past_ten"
    by (simp add: parse_example_utc to_seconds_def half_past_ten_def)
next
  show "map_option to_seconds (parse_datetime strptime (PStr ''2024-01-15 10:30:00'')) =
        Some half_past_ten"
    by (simp add: parse_example_space to_seconds_def half_past_ten_def)
next
  show "parse_datetime strptime (PStr ''not-a-date'') = None"
    by (rule parse_example_bad)
next
  assume d: "list_all is_dict rs"
  from refresh_dicts [OF d]
  show "fst (refresh_environments sp (Inr (PList rs)) s)"
    by blast
  from refresh_dicts [OF d]
  show "map Inr (environments (snd (refresh_environments sp (Inr (PList rs)) s))) =
            map (make_environment sp) rs"
    by blast
qed

lemma strptime_utc_first: "strptime (PStr ''2024-01-15T10:30:00Z'') ''%Y-%m-%dT%H:%M:%S.%fZ'' = Inl ValueError"
  by code_simp

lemma strptime_utc_second: "strptime (PStr ''2024-01-15T10:30:00Z'') ''%Y-%m-%dT%H:%M:%SZ'' = Inr half_past_ten"
  by code_simp

lemma make_three_records:
  "map (make_environment strptime) three_records =
     map Inr
       [\<lparr>name = PStr ''prod-eu'', display_name = PStr [], url = PStr [], region = PStr [],
          environment_type = PStr [], state = PStr [], created_time = Some half_past_ten\<rparr>,
        \<lparr>name = PStr ''dev-us'', display_name = PStr [], url = PStr [], region = PStr [],
          environment_type = PStr [], state = PStr [], created_time = None\<rparr>,
        \<lparr>name = PStr ''test-us'', display_name = PStr [], url = PStr [], region = PStr [],
          environment_type = PStr [], state = PStr [], created_time = Some half_past_ten\<rparr>]"
  by code_simp

theorem parse_datetime_policy_witness:
  "truthy (PStr ''2024-01-15T10:30:00Z'')
   \<and> strptime (PStr ''2024-01-15T10:30:00Z'') ''%Y-%m-%dT%H:%M:%S.%fZ'' = Inl ValueError
   \<and> strptime (PStr ''2024-01-15T10:30:00Z'') ''%Y-%m-%dT%H:%M:%SZ'' = Inr half_past_ten
   \<and> parse_datetime strptime (PStr ''2024-01-15T10:30:00Z'') = Some half_past_ten
   \<and> list_all is_dict three_records
   \<and> fst (refresh_environments strptime (Inr (PList three_records)) two_envs)
   \<and> map created_time
        (environments (snd (refresh_environments strptime (Inr (PList three_records)) two_envs))) =
        [Some half_past_ten, None, Some half_past_ten]"
proof -
  note t = parse_datetime_policy
    [where v = "PStr ''2024-01-15T10:30:00Z''" and sp = strptime and rs = three_records
       and s = two_envs]
  have tr: "truthy (PStr ''2024-01-15T10:30:00Z'')"
    by simp
  from t [THEN conjunct2, THEN conjunct1] tr
  have "parse_datetime strptime (PStr ''2024-01-15T10:30:00Z'') =
          (case strptime (PStr ''2024-01-15T10:30:00Z'') ''%Y-%m-%dT%H:%M:%S.%fZ'' of
             Inr d \<Rightarrow> Some d
           | Inl e1 \<Rightarrow>
               if \<not> is_ValueError e1 then None
               else (case strptime (PStr ''2024-01-15T10:30:00Z'') ''%Y-%m-%dT%H:%M:%SZ'' of
                       Inr d \<Rightarrow> Some d
                     | Inl e2 \<Rightarrow>
                         if \<not> is_ValueError e2 then None
                         else (case strptime (PStr ''2024-01-15T10:30:00Z'') ''%Y-%m-%d %H:%M:%S'' of
                                 Inr d \<Rightarrow> Some d
                               | Inl e3 \<Rightarrow> None)))"
    by blast
  then have p: "parse_datetime strptime (PStr ''2024-01-15T10:30:00Z'') = Some half_past_ten"
    by (simp add: strptime_utc_first strptime_utc_second)
  have d: "list_all is_dict three_records"
    by (simp add: three_records_def)
  from t [THEN conjunct2, THEN conjunct2, THEN conjunct2, THEN conjunct2, THEN conjunct2,
      THEN conjunct2, THEN conjunct2] d
  have f: "fst (refresh_environments strptime (Inr (PList three_records)) two_envs)"
    and m: "map Inr (environments (snd (refresh_environments strptime (Inr (PList three_records))
              two_envs))) = map (make_environment strptime) three_records"
    by blast+
  from m [unfolded make_three_records] have "environments (snd (refresh_environments strptime (Inr (PList three_records))
      two_envs)) =
       [\<lparr>name = PStr ''prod-eu'', display_name = PStr [], url = PStr [], region = PStr [],
          environment_type = PStr [], state = PStr [], created_time = Some half_past_ten\<rparr>,
        \<lparr>name = PStr ''dev-us'', display_name = PStr [], url = PStr [], region = PStr [],
          environment_type = PStr [], state = PStr [], created_time = None\<rparr>,
        \<lparr>name = PStr ''test-us'', display_name = PStr [], url = PStr [], region = PStr [],
          environment_type = PStr [], state = PStr [], created_time = Some half_past_ten\<rparr>]"
    by (rule map_injective) simp
  then have c: "map created_time
        (environments (snd (refresh_environments strptime (Inr (PList three_records)) two_envs))) =
        [Some half_past_ten, None, Some half_past_ten]"
    by simp
  from tr strptime_utc_first strptime_utc_second p d f c show ?thesis
    by (intro conjI)
qed

subsection \<open>Searching the catalog\<close>











subsection \<open>Summary of the catalog\<close>



























end
